theory Spec2Isabelle
  imports Complex_Main
begin

section \<open>Country refresh pipeline of \<^verbatim>\<open>main.py\<close>\<close>

text \<open>
  A shallow embedding of the refresh-and-reconcile pipeline of \<^verbatim>\<open>src/main.py\<close>:
  the two fetches, the per-record validation, the estimator, the reconciliation
  against the \<^verbatim>\<open>countries\<close> table, the commit or rollback, and the summary image.

  Modelling decisions, each one visible in the definitions below:
  \<^item> Python floats are idealised as \<open>real\<close>: the rounding of a product or a quotient,
    infinities and NaN are not modelled. Two effects of the doubles are modelled, because
    claims depend on them: the \<^verbatim>\<open>OverflowError\<close> that \<^verbatim>\<open>int * float\<close> raises for an
    int too large to convert, and the range of \<^verbatim>\<open>random.uniform\<close>, which includes its
    upper end.
  \<^item> The environment is passed in explicitly: the outcome of each HTTP request, the value
    of \<^verbatim>\<open>datetime.utcnow()\<close> at line 223 and the values it has when the flush calls it
    for \<^verbatim>\<open>onupdate\<close>, the values \<^verbatim>\<open>random.uniform(1000, 2000)\<close> will return, and the
    drawing and saving of the image.
  \<^item> A raw country object is typed as the feed delivers it: its text attributes are strings
    or null, its currencies are a list of objects with an optional string code, and a
    rate is a number. The \<^verbatim>\<open>population\<close> attribute is kept as an arbitrary JSON
    value, because the code inspects its Python type. A payload of another shape (on which
    Python raises \<^verbatim>\<open>AttributeError\<close> or \<^verbatim>\<open>TypeError\<close>) is outside the model.
  \<^item> The table is the list of its rows in the order a query without \<^verbatim>\<open>ORDER BY\<close>
    scans them (insertion order). The session is created with
    \<^verbatim>\<open>autoflush=False\<close>, so a query inside the loop reads the rows of the table and
    never the objects added earlier in the same batch.
\<close>

subsection \<open>Values\<close>

datatype json =
    JNull
  | JBool bool
  | JInt int
  | JFloat real
  | JStr string
  | JList "json list"
  | JObj "(string \<times> json) list"

type_synonym datetime = nat

text \<open>One entry of \<^verbatim>\<open>country_data["currencies"]\<close>; \<open>code\<close> is what \<^verbatim>\<open>.get("code")\<close> returns.\<close>

record currency =
  code :: "string option"

text \<open>
  One element of the countries payload. Each field is what \<^verbatim>\<open>country_data.get(key)\<close>
  returns: \<open>None\<close> (or \<open>JNull\<close>) when the key is absent or null. \<open>raw_currencies\<close>
  is \<^verbatim>\<open>country_data.get("currencies", [])\<close>, a null value read as the empty list
  (both are falsy).
\<close>

record country_data =
  raw_name :: "string option"
  raw_capital :: "string option"
  raw_region :: "string option"
  raw_population :: json
  raw_flag :: "string option"
  raw_currencies :: "currency list"

text \<open>
  A row of the table \<^verbatim>\<open>countries\<close> (class \<^verbatim>\<open>Country\<close>). The surrogate key \<^verbatim>\<open>id\<close> is
  \<open>None\<close> on an object that has not been flushed. \<^verbatim>\<open>last_refreshed_at\<close> is declared
  with \<^verbatim>\<open>default=datetime.utcnow, onupdate=datetime.utcnow\<close>: the default never
  applies, because every insert passes a value; \<^verbatim>\<open>onupdate\<close> is part of the flush below.
\<close>

record Country =
  country_id :: "nat option"
  name :: string
  capital :: "string option"
  region :: "string option"
  population :: int
  currency_code :: "string option"
  exchange_rate :: "real option"
  estimated_gdp :: "real option"
  flag_url :: "string option"
  last_refreshed_at :: datetime

subsection \<open>Exceptions\<close>

text \<open>
  The exceptions (subclasses of \<^verbatim>\<open>Exception\<close>) the pipeline can meet, each with the text
  \<^verbatim>\<open>str(e)\<close> would give where the environment supplies it.
\<close>

datatype py_exception =
    TimeoutException string
  | HTTPStatusError string
  | IntegrityError string
  | ZeroDivisionError
  | OverflowError
  | OtherException string

text \<open>The \<^verbatim>\<open>details\<close> entry of an error body: a string, a field map, or \<^verbatim>\<open>str(e)\<close>.\<close>

datatype details =
    Text string
  | Fields "(string \<times> string) list"
  | ExceptionText py_exception

text \<open>\<^verbatim>\<open>HTTPException(status_code=..., detail={"error": ..., "details": ...})\<close>\<close>

record http_exception =
  status_code :: nat
  error :: string
  details :: "details option"

definition HTTPException :: "nat \<Rightarrow> string \<Rightarrow> details option \<Rightarrow> http_exception" where
  "HTTPException s e d = \<lparr>status_code = s, error = e, details = d\<rparr>"

text \<open>What leaves a \<^verbatim>\<open>try\<close> body: an \<^verbatim>\<open>HTTPException\<close> or any other exception.\<close>

datatype raised =
    Http http_exception
  | Exc py_exception

subsection \<open>Source gateway\<close>

definition COUNTRIES_API :: string where
  "COUNTRIES_API =
     ''https://restcountries.com/v2/all?fields=name,capital,region,population,flag,currencies''"

definition EXCHANGE_API :: string where
  "EXCHANGE_API = ''https://open.er-api.com/v6/latest/USD''"

text \<open>
  The outcome of \<^verbatim>\<open>client.get(url); response.raise_for_status(); response.json()\<close>:
  the decoded body, or the exception one of the three calls raised.
\<close>

datatype 'a http_outcome =
    Returned 'a
  | Raised py_exception

definition fetch_countries :: "country_data list http_outcome \<Rightarrow> http_exception + country_data list" where
  "fetch_countries outcome =
     (case outcome of
        Returned body \<Rightarrow> Inr body
      | Raised (TimeoutException _) \<Rightarrow>
          Inl (HTTPException 503 ''External data source unavailable''
                 (Some (Text (''Could not fetch data from RestCountries API ('' @ COUNTRIES_API @ '')''))))
      | Raised (HTTPStatusError _) \<Rightarrow>
          Inl (HTTPException 503 ''External data source unavailable''
                 (Some (Text (''Could not fetch data from RestCountries API ('' @ COUNTRIES_API @ '')''))))
      | Raised _ \<Rightarrow>
          Inl (HTTPException 503 ''External data source unavailable''
                 (Some (Text (''Could not fetch data from RestCountries API ('' @ COUNTRIES_API @ '')'')))))"

text \<open>
  The body of the exchange-rate response is \<^verbatim>\<open>data\<close>; \<open>None\<close> stands for a body without
  the key \<^verbatim>\<open>rates\<close>, for which \<^verbatim>\<open>data.get("rates", {})\<close> is the empty dict. A rate
  table maps a currency code to its rate; a null rate reads as an absent one
  (\<^verbatim>\<open>exchange_rates.get(code)\<close> is \<^verbatim>\<open>None\<close> for both).
\<close>

type_synonym rate_table = "string \<rightharpoonup> real"

definition fetch_exchange_rates :: "rate_table option http_outcome \<Rightarrow> http_exception + rate_table" where
  "fetch_exchange_rates outcome =
     (case outcome of
        Returned data \<Rightarrow> Inr (case data of None \<Rightarrow> Map.empty | Some rates \<Rightarrow> rates)
      | Raised (TimeoutException _) \<Rightarrow>
          Inl (HTTPException 503 ''External data source unavailable''
                 (Some (Text (''Could not fetch data from Exchange Rate API ('' @ EXCHANGE_API @ '')''))))
      | Raised (HTTPStatusError _) \<Rightarrow>
          Inl (HTTPException 503 ''External data source unavailable''
                 (Some (Text (''Could not fetch data from Exchange Rate API ('' @ EXCHANGE_API @ '')''))))
      | Raised _ \<Rightarrow>
          Inl (HTTPException 503 ''External data source unavailable''
                 (Some (Text (''Could not fetch data from Exchange Rate API ('' @ EXCHANGE_API @ '')'')))))"

subsection \<open>Economic estimator\<close>

text \<open>
  The generator is the sequence of values the calls \<^verbatim>\<open>random.uniform(1000, 2000)\<close> will
  return. The library computes \<^verbatim>\<open>a + (b - a) * self.random()\<close> in doubles, with
  \<^verbatim>\<open>random()\<close> in \<open>[0, 1)\<close>: the value lies between 1000 and 2000, and it is
  2000 when \<^verbatim>\<open>random()\<close> is \<^verbatim>\<open>1 - 2**-53\<close>, where the sum rounds up to the end point.
\<close>

type_synonym rng = "nat \<Rightarrow> real"

definition random_uniform :: "rng \<Rightarrow> real \<times> rng" where
  "random_uniform g = (g 0, \<lambda>n. g (Suc n))"

text \<open>
  \<^verbatim>\<open>population * random_multiplier\<close> converts the int to a float first, which raises
  \<^verbatim>\<open>OverflowError\<close> for an int that rounds to \<^verbatim>\<open>2**1024\<close> or beyond, that is from
  \<^verbatim>\<open>2**1024 - 2**970\<close> on.
\<close>

definition in_float_range :: "int \<Rightarrow> bool" where
  "in_float_range n = (\<bar>n\<bar> < 2 ^ 1024 - 2 ^ 970)"

definition float_of_int :: "int \<Rightarrow> py_exception + real" where
  "float_of_int n = (if in_float_range n then Inr (real_of_int n) else Inl OverflowError)"

text \<open>Python's \<^verbatim>\<open>/\<close> on floats raises on a zero divisor.\<close>

definition truediv :: "real \<Rightarrow> real \<Rightarrow> py_exception + real" where
  "truediv x y = (if y = 0 then Inl ZeroDivisionError else Inr (x / y))"

definition calculate_gdp :: "int \<Rightarrow> real option \<Rightarrow> rng \<Rightarrow> (py_exception + real option) \<times> rng" where
  "calculate_gdp population' exchange_rate' g =
     (case exchange_rate' of
        None \<Rightarrow> (Inr None, g)
      | Some r \<Rightarrow>
          if r = 0 then (Inr None, g)
          else (let (random_multiplier, g') = random_uniform g
                in case float_of_int population' of
                     Inl e \<Rightarrow> (Inl e, g')
                   | Inr p \<Rightarrow> (map_sum id Some (truediv (p * random_multiplier) r), g')))"

text \<open>
  Lines 256 to 271 of \<^verbatim>\<open>refresh_countries\<close>: the three-way branch on the currency code.
  The result is the triple \<open>(currency_code, exchange_rate, estimated_gdp)\<close> that is stored.
  \<^verbatim>\<open>not currency_code\<close> holds for \<^verbatim>\<open>None\<close> and for the empty string.
\<close>

definition estimate ::
  "rate_table \<Rightarrow> int \<Rightarrow> string option \<Rightarrow> rng \<Rightarrow>
   (py_exception + string option \<times> real option \<times> real option) \<times> rng" where
  "estimate exchange_rates population' currency_code' g =
     (case currency_code' of
        None \<Rightarrow> (Inr (None, None, Some 0), g)
      | Some c \<Rightarrow>
          if c = [] then (Inr (None, None, Some 0), g)
          else (case exchange_rates c of
                  Some r \<Rightarrow>
                    (let (gdp, g') = calculate_gdp population' (Some r) g
                     in (map_sum id (\<lambda>v. (Some c, Some r, v)) gdp, g'))
                | None \<Rightarrow> (Inr (Some c, None, None), g)))"

subsection \<open>Record normalizer and validator\<close>

text \<open>\<^verbatim>\<open>isinstance(population, int)\<close>: \<^verbatim>\<open>bool\<close> is a subclass of \<^verbatim>\<open>int\<close> in Python.\<close>

fun isinstance_int :: "json \<Rightarrow> bool" where
  "isinstance_int (JInt n) = True"
| "isinstance_int (JBool b) = True"
| "isinstance_int v = False"

text \<open>The integer a Python \<^verbatim>\<open>int\<close> denotes (\<^verbatim>\<open>True\<close> is 1); used only where \<open>isinstance_int\<close> holds.\<close>

fun int_of :: "json \<Rightarrow> int" where
  "int_of (JInt n) = n"
| "int_of (JBool b) = (if b then 1 else 0)"
| "int_of v = 0"

definition name_errors :: "string option \<Rightarrow> (string \<times> string) list" where
  "name_errors name' =
     (if name' = None \<or> name' = Some [] then [(''name'', ''is required'')] else [])"

definition population_errors :: "json \<Rightarrow> (string \<times> string) list" where
  "population_errors population' =
     (if population' = JNull then [(''population'', ''is required'')]
      else if \<not> isinstance_int population' then [(''population'', ''must be an integer'')]
      else if int_of population' < 0 then [(''population'', ''must be a non-negative integer'')]
      else [])"

text \<open>The dict \<^verbatim>\<open>validation_errors\<close> in insertion order, as it stands at line 250.\<close>

definition validation_errors :: "country_data \<Rightarrow> (string \<times> string) list" where
  "validation_errors country =
     name_errors (raw_name country) @ population_errors (raw_population country)"

text \<open>Lines 245 to 248: the code of the first currency, when there is one.\<close>

definition first_currency_code :: "currency list \<Rightarrow> string option" where
  "first_currency_code currencies = (case currencies of [] \<Rightarrow> None | c # rest \<Rightarrow> code c)"

text \<open>The string a validated \<^verbatim>\<open>name\<close> is; used only where \<open>name_errors\<close> is empty.\<close>

definition str_of :: "string option \<Rightarrow> string" where
  "str_of s = (case s of None \<Rightarrow> [] | Some t \<Rightarrow> t)"

subsection \<open>Case-insensitive lookup\<close>

text \<open>
  \<^verbatim>\<open>Country.name.ilike(name)\<close> renders \<^verbatim>\<open>lower(name) LIKE lower(:name)\<close> (or
  \<^verbatim>\<open>ILIKE\<close>): the argument is a \<^verbatim>\<open>LIKE\<close> pattern, in which \<^verbatim>\<open>%\<close> matches any
  sequence of characters and \<^verbatim>\<open>_\<close> any single character. No \<^verbatim>\<open>ESCAPE\<close> clause is
  given, and none is modelled. Letter case is folded on ASCII letters.
\<close>

definition lower_char :: "char \<Rightarrow> char" where
  "lower_char c =
     (case map_of (zip ''ABCDEFGHIJKLMNOPQRSTUVWXYZ'' ''abcdefghijklmnopqrstuvwxyz'') c of
        None \<Rightarrow> c
      | Some l \<Rightarrow> l)"

definition lower :: "string \<Rightarrow> string" where
  "lower s = map lower_char s"

fun like :: "string \<Rightarrow> string \<Rightarrow> bool" where
  "like [] [] = True"
| "like [] (c # s) = False"
| "like (p # ps) [] = (p = CHR ''%'' \<and> like ps [])"
| "like (p # ps) (c # s) =
     (if p = CHR ''%'' then like ps (c # s) \<or> like (p # ps) s
      else (p = CHR ''_'' \<or> p = c) \<and> like ps s)"

definition ilike :: "string \<Rightarrow> string \<Rightarrow> bool" where
  "ilike column pattern = like (lower pattern) (lower column)"

text \<open>\<^verbatim>\<open>query.filter(...).first()\<close>: the position of the first row that satisfies the filter.\<close>

fun first_index :: "('a \<Rightarrow> bool) \<Rightarrow> 'a list \<Rightarrow> nat option" where
  "first_index P [] = None"
| "first_index P (x # xs) = (if P x then Some 0 else map_option Suc (first_index P xs))"

subsection \<open>Reconciler\<close>

text \<open>
  The session during the loop: \<open>persistent\<close> are the rows of the table as objects of the
  identity map, carrying the attribute changes made so far; \<open>pending\<close> are the objects
  passed to \<^verbatim>\<open>db.add\<close>, not yet inserted.
\<close>

record session =
  persistent :: "Country list"
  pending :: "Country list"

text \<open>
  Lines 273 to 301. The filter runs in the database, on the stored names; the loop never
  assigns \<open>name\<close>, so these are the names of \<open>persistent\<close>.
\<close>

definition reconcile :: "datetime \<Rightarrow> Country \<Rightarrow> session \<Rightarrow> session" where
  "reconcile refresh_time new_country s =
     (case first_index (\<lambda>c. ilike (name c) (name new_country)) (persistent s) of
        Some i \<Rightarrow>
          s\<lparr>persistent := (persistent s)[i := (persistent s ! i)
               \<lparr>capital := capital new_country,
                region := region new_country,
                population := population new_country,
                currency_code := currency_code new_country,
                exchange_rate := exchange_rate new_country,
                estimated_gdp := estimated_gdp new_country,
                flag_url := flag_url new_country,
                last_refreshed_at := refresh_time\<rparr>]\<rparr>
      | None \<Rightarrow> s\<lparr>pending := pending s @ [new_country\<lparr>last_refreshed_at := refresh_time\<rparr>]\<rparr>)"

subsection \<open>Refresh orchestrator\<close>

text \<open>One iteration of the loop at line 225.\<close>

definition process_country ::
  "rate_table \<Rightarrow> datetime \<Rightarrow> country_data \<Rightarrow> session \<times> rng \<Rightarrow> raised + session \<times> rng" where
  "process_country exchange_rates refresh_time country_data' st =
     (let (s, g) = st;
          errors = validation_errors country_data';
          currency_code' = first_currency_code (raw_currencies country_data')
      in if errors \<noteq> [] then
           Inl (Http (HTTPException 400 ''Validation failed'' (Some (Fields errors))))
         else
           (let name' = str_of (raw_name country_data');
                population' = int_of (raw_population country_data')
            in case estimate exchange_rates population' currency_code' g of
                 (Inl e, g') \<Rightarrow> Inl (Exc e)
               | (Inr (cc, rate, gdp), g') \<Rightarrow>
                   Inr (reconcile refresh_time
                          \<lparr>country_id = None,
                           name = name',
                           capital = raw_capital country_data',
                           region = raw_region country_data',
                           population = population',
                           currency_code = cc,
                           exchange_rate = rate,
                           estimated_gdp = gdp,
                           flag_url = raw_flag country_data',
                           last_refreshed_at = refresh_time\<rparr> s, g')))"

fun process_all ::
  "rate_table \<Rightarrow> datetime \<Rightarrow> country_data list \<Rightarrow> session \<times> rng \<Rightarrow> raised + session \<times> rng" where
  "process_all exchange_rates refresh_time [] st = Inr st"
| "process_all exchange_rates refresh_time (country_data' # rest) st =
     (case process_country exchange_rates refresh_time country_data' st of
        Inl e \<Rightarrow> Inl e
      | Inr st' \<Rightarrow> process_all exchange_rates refresh_time rest st')"

text \<open>
  The database: the rows of \<^verbatim>\<open>countries\<close> and the next value of the key sequence.
  \<^verbatim>\<open>db.commit()\<close> flushes the session. For a row with a changed attribute it emits an
  \<^verbatim>\<open>UPDATE\<close> that sets the attributes whose value differs from the stored one; when
  \<^verbatim>\<open>last_refreshed_at\<close> is not among them, the column's \<^verbatim>\<open>onupdate\<close> sets it to
  \<^verbatim>\<open>datetime.utcnow()\<close> as read during the flush (\<open>clock\<close>). A row with no changed
  attribute is not written.
\<close>

definition flush_row :: "datetime \<Rightarrow> Country \<Rightarrow> Country \<Rightarrow> Country" where
  "flush_row clock old new =
     (if new \<noteq> old \<and> last_refreshed_at new = last_refreshed_at old
      then new\<lparr>last_refreshed_at := clock\<rparr>
      else new)"

text \<open>The rows of the table after the updates; \<open>clock i\<close> is the time read for the row at \<open>i\<close>.\<close>

fun flush_rows :: "(nat \<Rightarrow> datetime) \<Rightarrow> nat \<Rightarrow> Country list \<Rightarrow> Country list \<Rightarrow> Country list" where
  "flush_rows clock i (old # olds) (new # news) =
     flush_row (clock i) old new # flush_rows clock (Suc i) olds news"
| "flush_rows clock i olds news = news"

text \<open>
  Each pending object is inserted with a fresh \<^verbatim>\<open>id\<close>. \<^verbatim>\<open>name\<close> is declared
  \<^verbatim>\<open>unique=True\<close>: an insert whose name is already in the table raises
  \<^verbatim>\<open>IntegrityError\<close> (here with the duplicate name as its text). The comparison of the
  unique index is taken as equality of strings; the length limits of the text columns and
  the range of the integer column depend on the database and are not modelled.
\<close>

record db =
  countries :: "Country list"
  next_id :: nat

fun flush_pending :: "Country list \<Rightarrow> db \<Rightarrow> py_exception + db" where
  "flush_pending [] d = Inr d"
| "flush_pending (c # cs) d =
     (if name c \<in> set (map name (countries d)) then Inl (IntegrityError (name c))
      else flush_pending cs
             \<lparr>countries = countries d @ [c\<lparr>country_id := Some (next_id d)\<rparr>],
              next_id = Suc (next_id d)\<rparr>)"

definition commit :: "session \<Rightarrow> (nat \<Rightarrow> datetime) \<Rightarrow> db \<Rightarrow> py_exception + db" where
  "commit s clock d =
     flush_pending (pending s) (d\<lparr>countries := flush_rows clock 0 (countries d) (persistent s)\<rparr>)"

subsection \<open>Summary artifact generator\<close>

text \<open>
  What \<^verbatim>\<open>generate_summary_image\<close> reads from the table: the five rows with the largest
  non-null \<^verbatim>\<open>estimated_gdp\<close>, the number of rows, and the latest refresh time.
\<close>

record summary =
  top_countries :: "Country list"
  total_countries :: nat
  last_refresh :: "datetime option"

definition gdp_desc_key :: "Country \<Rightarrow> real" where
  "gdp_desc_key c = (case estimated_gdp c of None \<Rightarrow> 0 | Some v \<Rightarrow> - v)"

definition summary_of :: "Country list \<Rightarrow> summary" where
  "summary_of rows =
     \<lparr>top_countries = take 5 (sort_key gdp_desc_key (filter (\<lambda>c. estimated_gdp c \<noteq> None) rows)),
      total_countries = length rows,
      last_refresh =
        (case rows of [] \<Rightarrow> None
         | r # rs \<Rightarrow> Some (fold max (map last_refreshed_at rs) (last_refreshed_at r)))\<rparr>"

text \<open>
  The drawing and the saving are the environment's: \<open>render\<close> takes the summary and the
  file at \<^verbatim>\<open>cache/summary.png\<close> (\<open>None\<close> when it does not exist) and returns the
  exception it raised, if any, with the file as it is left. The whole body stands in
  \<^verbatim>\<open>try: ... except Exception as e: print(...)\<close>: both branches return normally.
\<close>

type_synonym 'img render = "summary \<Rightarrow> 'img option \<Rightarrow> py_exception option \<times> 'img option"

definition generate_summary_image :: "'img render \<Rightarrow> Country list \<Rightarrow> 'img option \<Rightarrow> 'img option" where
  "generate_summary_image render rows file =
     (case render (summary_of rows) file of
        (None, file') \<Rightarrow> file'
      | (Some e, file') \<Rightarrow> file')"

subsection \<open>The endpoints\<close>

text \<open>The body of the 200 response of \<^verbatim>\<open>POST /countries/refresh\<close>.\<close>

record refresh_response =
  resp_message :: string
  resp_total_countries :: nat
  resp_last_refreshed_at :: datetime

text \<open>
  \<^verbatim>\<open>refresh_countries\<close>. Arguments: the outcomes of the two requests, the value of
  \<^verbatim>\<open>datetime.utcnow()\<close> at line 223, the random generator, the clock of the flush, the
  renderer, and the state (database and image file). Result: the response or the \<^verbatim>\<open>HTTPException\<close> raised,
  and the state left behind. \<^verbatim>\<open>db.rollback()\<close> discards the session: the database is
  the one the call started with.
\<close>

definition refresh_countries ::
  "country_data list http_outcome \<Rightarrow> rate_table option http_outcome \<Rightarrow> datetime \<Rightarrow> rng \<Rightarrow>
   (nat \<Rightarrow> datetime) \<Rightarrow> 'img render \<Rightarrow> db \<times> 'img option \<Rightarrow>
   (http_exception + refresh_response) \<times> db \<times> 'img option" where
  "refresh_countries countries_outcome rates_outcome utcnow g clock render st =
     (let (d, file) = st in
      case fetch_countries countries_outcome of
        Inl e \<Rightarrow> (Inl e, d, file)
      | Inr countries_data \<Rightarrow>
          (case fetch_exchange_rates rates_outcome of
             Inl e \<Rightarrow> (Inl e, d, file)
           | Inr exchange_rates \<Rightarrow>
               (let refresh_time = utcnow in
                case process_all exchange_rates refresh_time countries_data
                       (\<lparr>persistent = countries d, pending = []\<rparr>, g) of
                  Inl (Http e) \<Rightarrow> (Inl e, d, file)
                | Inl (Exc e) \<Rightarrow>
                    (Inl (HTTPException 500 ''Internal server error'' (Some (ExceptionText e))),
                     d, file)
                | Inr (s, g') \<Rightarrow>
                    (case commit s clock d of
                       Inl e \<Rightarrow>
                         (Inl (HTTPException 500 ''Internal server error'' (Some (ExceptionText e))),
                          d, file)
                     | Inr d' \<Rightarrow>
                         (let file' = generate_summary_image render (countries d') file in
                          (Inr \<lparr>resp_message = ''Countries refreshed successfully'',
                                resp_total_countries = length (countries d'),
                                resp_last_refreshed_at = refresh_time\<rparr>,
                           d', file'))))))"

text \<open>\<^verbatim>\<open>GET /countries/{name}\<close>\<close>

definition get_country :: "string \<Rightarrow> db \<Rightarrow> http_exception + Country" where
  "get_country name' d =
     (case first_index (\<lambda>c. ilike (name c) name') (countries d) of
        None \<Rightarrow> Inl (HTTPException 404 ''Country not found'' None)
      | Some i \<Rightarrow> Inr (countries d ! i))"

text \<open>\<^verbatim>\<open>DELETE /countries/{name}\<close>: the response or the exception, and the database left.\<close>

definition delete_country :: "string \<Rightarrow> db \<Rightarrow> (http_exception + string) \<times> db" where
  "delete_country name' d =
     (case first_index (\<lambda>c. ilike (name c) name') (countries d) of
        None \<Rightarrow> (Inl (HTTPException 404 ''Country not found'' None), d)
      | Some i \<Rightarrow>
          (Inr (''Country '' @ [CHR 0x27] @ name' @ [CHR 0x27] @ '' deleted successfully''),
           d\<lparr>countries := take i (countries d) @ drop (Suc i) (countries d)\<rparr>))"

subsection \<open>Properties of rows and loop invariant\<close>

text \<open>
  The invariant of the data model on one row: an estimated value is present only with a
  non-zero exchange rate or with no currency code, and a row with no currency code has
  the estimated value 0 and no exchange rate.
\<close>

definition data_model_invariant :: "Country \<Rightarrow> bool" where
  "data_model_invariant r =
     ((estimated_gdp r \<noteq> None \<longrightarrow>
         (exchange_rate r \<noteq> None \<and> exchange_rate r \<noteq> Some 0) \<or> currency_code r = None) \<and>
      (currency_code r = None \<longrightarrow> estimated_gdp r = Some 0 \<and> exchange_rate r = None))"

text \<open>A row as the refresh at time \<open>t\<close> writes it.\<close>

definition refreshed :: "datetime \<Rightarrow> Country \<Rightarrow> bool" where
  "refreshed t r = (last_refreshed_at r = t \<and> data_model_invariant r)"

text \<open>
  What holds of the session after every iteration of the loop, for the rows \<open>rows0\<close> the
  table had when the refresh began.
\<close>

definition loop_invariant :: "datetime \<Rightarrow> Country list \<Rightarrow> session \<Rightarrow> bool" where
  "loop_invariant t rows0 s =
     (length (persistent s) = length rows0 \<and>
      (\<forall>i<length rows0. persistent s ! i = rows0 ! i \<or> refreshed t (persistent s ! i)) \<and>
      list_all (refreshed t) (pending s))"

text \<open>
  The row a reconciliation of a candidate named \<open>n\<close> writes, read from the session \<open>s'\<close>
  it leaves: the first row of \<open>s\<close> the lookup matches, or else the object added last.
\<close>

definition written_row :: "string \<Rightarrow> session \<Rightarrow> session \<Rightarrow> Country" where
  "written_row n s s' =
     (case first_index (\<lambda>c. ilike (name c) n) (persistent s) of
        Some i \<Rightarrow> persistent s' ! i
      | None \<Rightarrow> last (pending s'))"

text \<open>
  The values one iteration of the loop holds in its local variables once the estimator has
  run, as the object the insert branch builds from them.
\<close>

definition candidate ::
  "datetime \<Rightarrow> country_data \<Rightarrow> string option \<Rightarrow> real option \<Rightarrow> real option \<Rightarrow> Country" where
  "candidate t c cc rate gdp =
     \<lparr>country_id = None, name = str_of (raw_name c), capital = raw_capital c,
      region = raw_region c, population = int_of (raw_population c), currency_code = cc,
      exchange_rate = rate, estimated_gdp = gdp, flag_url = raw_flag c,
      last_refreshed_at = t\<rparr>"

text \<open>The names the session holds: those of the rows, then those of the objects added.\<close>

definition session_names :: "session \<Rightarrow> string list" where
  "session_names s = map name (persistent s) @ map name (pending s)"

subsection \<open>Example inputs\<close>

definition ex_zero :: country_data where
  "ex_zero =
     \<lparr>raw_name = Some ''Zedland'', raw_capital = None, raw_region = None,
      raw_population = JInt 1000, raw_flag = None, raw_currencies = [\<lparr>code = Some ''ZZZ''\<rparr>]\<rparr>"

definition ex_chad :: country_data where
  "ex_chad =
     \<lparr>raw_name = Some ''Chad'', raw_capital = Some ''Ndjamena'', raw_region = Some ''Africa'',
      raw_population = JInt 10, raw_flag = Some ''https://flagcdn.com/td.svg'',
      raw_currencies = [\<lparr>code = Some ''XAF''\<rparr>]\<rparr>"

definition ex_pattern :: country_data where
  "ex_pattern =
     \<lparr>raw_name = Some ''C%'', raw_capital = None, raw_region = Some ''Nowhere'',
      raw_population = JInt 7, raw_flag = None, raw_currencies = []\<rparr>"

definition ex_invalid :: country_data where
  "ex_invalid =
     \<lparr>raw_name = None, raw_capital = Some ''Paris'', raw_region = Some ''Europe'',
      raw_population = JInt (- 5), raw_flag = None, raw_currencies = [\<lparr>code = Some ''EUR''\<rparr>]\<rparr>"

definition ex_chad_upper :: country_data where
  "ex_chad_upper =
     \<lparr>raw_name = Some ''CHAD'', raw_capital = None, raw_region = None,
      raw_population = JInt 10, raw_flag = None, raw_currencies = [\<lparr>code = Some ''XAF''\<rparr>]\<rparr>"

text \<open>A row stored by an earlier refresh, and a database that holds it.\<close>

definition ex_row_chad :: Country where
  "ex_row_chad =
     \<lparr>country_id = Some 1, name = ''Chad'', capital = Some ''Ndjamena'',
      region = Some ''Africa'', population = 9, currency_code = Some ''XAF'',
      exchange_rate = Some 3, estimated_gdp = Some 4000,
      flag_url = Some ''https://flagcdn.com/td.svg'', last_refreshed_at = 1\<rparr>"

definition ex_db_chad :: db where
  "ex_db_chad = \<lparr>countries = [ex_row_chad], next_id = 2\<rparr>"

text \<open>A feed with a country whose name contains the character \<^verbatim>\<open>%\<close>.\<close>

definition ex_feed :: "country_data list" where
  "ex_feed = [ex_chad, ex_pattern]"

definition ex_rates :: rate_table where
  "ex_rates = [''XAF'' \<mapsto> 2, ''ZZZ'' \<mapsto> 0]"

definition ex_rng :: rng where
  "ex_rng = (\<lambda>n. 1500)"

text \<open>The generator at the upper end of the range, and a clock for the flush.\<close>

definition ex_rng_top :: rng where
  "ex_rng_top = (\<lambda>n. 2000)"

definition ex_clock :: "nat \<Rightarrow> datetime" where
  "ex_clock = (\<lambda>i. 6)"

text \<open>A valid record whose population is too large to convert to a float.\<close>

definition ex_big :: country_data where
  "ex_big =
     \<lparr>raw_name = Some ''Bigland'', raw_capital = None, raw_region = None,
      raw_population = JInt (10 ^ 400), raw_flag = None,
      raw_currencies = [\<lparr>code = Some ''XAF''\<rparr>]\<rparr>"

definition ex_db :: db where
  "ex_db = \<lparr>countries = [], next_id = 1\<rparr>"

text \<open>A renderer that succeeds and stores the summary, and one that always raises.\<close>

definition ex_render :: "summary render" where
  "ex_render = (\<lambda>s file. (None, Some s))"

definition ex_render_fails :: "summary render" where
  "ex_render_fails = (\<lambda>s file. (Some (OtherException ''cannot write cache/summary.png''), file))"

section \<open>Verification\<close>

subsection \<open>Evaluation on the example inputs\<close>

lemmas ex_defs = ex_chad_def ex_chad_upper_def ex_pattern_def ex_zero_def ex_invalid_def
  ex_rates_def ex_rng_def ex_db_def ex_db_chad_def ex_row_chad_def ex_render_def
  ex_render_fails_def ex_feed_def ex_big_def ex_clock_def ex_rng_top_def
lemmas run_defs = refresh_countries_def fetch_countries_def fetch_exchange_rates_def
  process_country_def validation_errors_def name_errors_def population_errors_def
  first_currency_code_def str_of_def estimate_def calculate_gdp_def random_uniform_def
  float_of_int_def in_float_range_def truediv_def reconcile_def commit_def flush_row_def
  generate_summary_image_def ilike_def lower_def lower_char_def

subsection \<open>The errors an iteration raises\<close>

lemma calculate_gdp_no_zero_division: "fst (calculate_gdp p r g) \<noteq> Inl ZeroDivisionError"
  by (auto simp: calculate_gdp_def random_uniform_def float_of_int_def truediv_def
      split: option.splits)



lemma estimate_no_zero_division: "fst (estimate R p c g) \<noteq> Inl ZeroDivisionError"
proof -
  have "map_sum id f x \<noteq> Inl ZeroDivisionError" if "calculate_gdp p r g = (x, g')"
    for r x g' and f :: "real option \<Rightarrow> string option \<times> real option \<times> real option"
    using calculate_gdp_no_zero_division [of p r g] that by (cases x) auto
  then show ?thesis
    by (auto simp: estimate_def split: option.splits prod.splits)
qed


lemma process_country_invalid:
  assumes "validation_errors c \<noteq> []"
  shows "process_country R t c st =
           Inl (Http (HTTPException 400 ''Validation failed'' (Some (Fields (validation_errors c)))))"
  using assms by (simp add: process_country_def Let_def split: prod.splits)

lemma process_country_no_zero_division:
  "process_country R t c st \<noteq> Inl (Exc ZeroDivisionError)"
proof (cases "validation_errors c = []")
  case True
  obtain s g where st: "st = (s, g)" by (cases st)
  show ?thesis
    using True
      estimate_no_zero_division [of R "int_of (raw_population c)"
        "first_currency_code (raw_currencies c)" g]
    by (auto simp: process_country_def st Let_def split: prod.splits sum.splits)
next
  case False
  then show ?thesis by (simp add: process_country_invalid)
qed


lemma refresh_failure_keeps_db:
  assumes "refresh_countries co ro t g clock render (d, file) = (Inl e, d', file')"
  shows "d' = d \<and> file' = file"
  using assms
  by (auto simp: refresh_countries_def Let_def split: sum.splits raised.splits prod.splits)

subsection \<open>Validation failures\<close>




subsection \<open>Source failures\<close>

text \<open>
  C5. If the countries request raises (a timeout, a status error or any other exception),
  or the countries request succeeds and the exchange-rate request raises, the refresh
  leaves the database and the image file unchanged and raises the HTTP 503 error
  \<open>External data source unavailable\<close>, whose details name the source that failed and its
  URL. The error is the same for every exception: nothing of the exception is in it.
\<close>

theorem refresh_source_unavailable:
  "refresh_countries (Raised e) rates_outcome utcnow g clock render (d, file) =
     (Inl (HTTPException 503 ''External data source unavailable''
             (Some (Text (''Could not fetch data from RestCountries API ('' @ COUNTRIES_API @ '')'')))),
      d, file) \<and>
   refresh_countries (Returned body) (Raised e) utcnow g clock render (d, file) =
     (Inl (HTTPException 503 ''External data source unavailable''
             (Some (Text (''Could not fetch data from Exchange Rate API ('' @ EXCHANGE_API @ '')'')))),
      d, file)"
  by (cases e) (simp_all add: refresh_countries_def fetch_countries_def fetch_exchange_rates_def)

subsection \<open>Validation\<close>

text \<open>
  C6. Both field rules are evaluated before the check at line 250, so the 400 error
  raised for a record carries every violated field: \<open>name\<close> is listed exactly when the
  name is missing or empty, and \<open>population\<close> is listed with \<open>is required\<close> when it is
  missing, \<open>must be an integer\<close> when it is not a Python int, and
  \<open>must be a non-negative integer\<close> when it is a negative int (so for \<open>-5\<close>). A record
  that violates both rules reports both fields.
\<close>

theorem validation_reports_every_violated_field:
  "(validation_errors c \<noteq> [] \<longrightarrow>
      process_country R t c st =
        Inl (Http (HTTPException 400 ''Validation failed'' (Some (Fields (validation_errors c)))))) \<and>
   map_of (validation_errors c) ''name'' =
     (if raw_name c = None \<or> raw_name c = Some [] then Some ''is required'' else None) \<and>
   map_of (validation_errors c) ''population'' =
     (case raw_population c of
        JNull \<Rightarrow> Some ''is required''
      | JInt n \<Rightarrow> if n < 0 then Some ''must be a non-negative integer'' else None
      | JBool b \<Rightarrow> None
      | JFloat x \<Rightarrow> Some ''must be an integer''
      | JStr s \<Rightarrow> Some ''must be an integer''
      | JList xs \<Rightarrow> Some ''must be an integer''
      | JObj kvs \<Rightarrow> Some ''must be an integer'') \<and>
   (raw_population c = JInt (- 5) \<longrightarrow>
      map_of (validation_errors c) ''population'' = Some ''must be a non-negative integer'') \<and>
   ((raw_name c = None \<or> raw_name c = Some []) \<and> population_errors (raw_population c) \<noteq> [] \<longrightarrow>
      map fst (validation_errors c) = [''name'', ''population''])"
proof -
  have 1: "validation_errors c \<noteq> [] \<longrightarrow>
      process_country R t c st =
        Inl (Http (HTTPException 400 ''Validation failed'' (Some (Fields (validation_errors c)))))"
    by (simp add: process_country_invalid)
  have n: "map_of (name_errors x) ''population'' = None" for x
    by (simp add: name_errors_def)
  have 2: "map_of (validation_errors c) ''name'' =
     (if raw_name c = None \<or> raw_name c = Some [] then Some ''is required'' else None)"
    by (simp add: validation_errors_def name_errors_def population_errors_def)
  have 3: "map_of (validation_errors c) ''population'' =
     (case raw_population c of
        JNull \<Rightarrow> Some ''is required''
      | JInt n \<Rightarrow> if n < 0 then Some ''must be a non-negative integer'' else None
      | JBool b \<Rightarrow> None
      | JFloat x \<Rightarrow> Some ''must be an integer''
      | JStr s \<Rightarrow> Some ''must be an integer''
      | JList xs \<Rightarrow> Some ''must be an integer''
      | JObj kvs \<Rightarrow> Some ''must be an integer'')"
    by (cases "raw_population c")
       (simp_all add: validation_errors_def map_add_def n population_errors_def)
  have 4: "raw_population c = JInt (- 5) \<longrightarrow>
      map_of (validation_errors c) ''population'' = Some ''must be a non-negative integer''"
    using 3 by simp
  have 5: "(raw_name c = None \<or> raw_name c = Some []) \<and> population_errors (raw_population c) \<noteq> [] \<longrightarrow>
      map fst (validation_errors c) = [''name'', ''population'']"
    by (auto simp: validation_errors_def name_errors_def population_errors_def split: if_splits)
  from 1 2 3 4 5 show ?thesis by blast
qed

theorem validation_reports_every_violated_field_witness:
  "validation_errors ex_invalid \<noteq> [] \<and>
   process_country ex_rates 5 ex_invalid (\<lparr>persistent = [], pending = []\<rparr>, ex_rng) =
     Inl (Http (HTTPException 400 ''Validation failed''
       (Some (Fields [(''name'', ''is required''), (''population'', ''must be a non-negative integer'')])))) \<and>
   raw_population ex_invalid = JInt (- 5) \<and>
   map_of (validation_errors ex_invalid) ''population'' = Some ''must be a non-negative integer'' \<and>
   raw_name ex_invalid = None \<and>
   map fst (validation_errors ex_invalid) = [''name'', ''population'']"
proof -
  have v: "validation_errors ex_invalid =
       [(''name'', ''is required''), (''population'', ''must be a non-negative integer'')]"
    by (simp add: validation_errors_def name_errors_def population_errors_def ex_invalid_def)
  have p: "raw_population ex_invalid = JInt (- 5)" "raw_name ex_invalid = None"
    by (simp_all add: ex_invalid_def)
  show ?thesis
    using validation_reports_every_violated_field
      [of ex_invalid ex_rates 5 "(\<lparr>persistent = [], pending = []\<rparr>, ex_rng)"]
    by (simp add: v p)
qed

subsection \<open>What one iteration writes\<close>

lemma first_index_Some:
  "first_index P xs = Some i \<Longrightarrow> i < length xs \<and> P (xs ! i)"
proof (induction xs arbitrary: i)
  case Nil
  then show ?case by simp
next
  case (Cons x xs)
  then show ?case by (cases "P x") auto
qed

lemma written_row_reconcile:
  "written_row (name n) s (reconcile t n s) =
     (case first_index (\<lambda>c. ilike (name c) (name n)) (persistent s) of
        Some i \<Rightarrow> (persistent s ! i)
               \<lparr>capital := capital n, region := region n, population := population n,
                currency_code := currency_code n, exchange_rate := exchange_rate n,
                estimated_gdp := estimated_gdp n, flag_url := flag_url n,
                last_refreshed_at := t\<rparr>
      | None \<Rightarrow> n\<lparr>last_refreshed_at := t\<rparr>)"
  by (auto simp: written_row_def reconcile_def dest: first_index_Some split: option.splits)

lemma written_row_estimate:
  "estimated_gdp (written_row (name n) s (reconcile t n s)) = estimated_gdp n \<and>
   exchange_rate (written_row (name n) s (reconcile t n s)) = exchange_rate n \<and>
   currency_code (written_row (name n) s (reconcile t n s)) = currency_code n"
  by (simp add: written_row_reconcile split: option.splits)

lemma written_row_candidate:
  "currency_code (written_row (str_of (raw_name c)) s (reconcile t (candidate t c cc rate gdp) s)) = cc \<and>
   exchange_rate (written_row (str_of (raw_name c)) s (reconcile t (candidate t c cc rate gdp) s)) = rate \<and>
   estimated_gdp (written_row (str_of (raw_name c)) s (reconcile t (candidate t c cc rate gdp) s)) = gdp"
  using written_row_estimate [of "candidate t c cc rate gdp" s t]
  by (simp add: candidate_def)

lemma process_country_estimate:
  assumes "validation_errors c = []"
    and "estimate R (int_of (raw_population c)) (first_currency_code (raw_currencies c)) g =
           (Inr (cc, rate, gdp), g')"
  shows "process_country R t c (s, g) = Inr (reconcile t (candidate t c cc rate gdp) s, g')"
  using assms by (simp add: process_country_def candidate_def)

subsection \<open>Zero rates\<close>

text \<open>
  C2, as the claim states it, fails: for a currency code whose rate in the table is 0 the
  stored exchange rate is that 0, while for a code absent from the table it is null.
  The estimator and a whole refresh are evaluated on the table \<open>ex_rates\<close>, in which the
  rate of \<open>ZZZ\<close> is 0.
\<close>

theorem zero_rate_stored_not_null:
  "ex_rates ''ZZZ'' = Some 0 \<and>
   fst (estimate ex_rates 1000 (Some ''ZZZ'') ex_rng) = Inr (Some ''ZZZ'', Some 0, None) \<and>
   fst (estimate (ex_rates(''ZZZ'' := None)) 1000 (Some ''ZZZ'') ex_rng) = Inr (Some ''ZZZ'', None, None) \<and>
   map (\<lambda>r. (name r, currency_code r, exchange_rate r, estimated_gdp r))
     (countries (fst (snd (refresh_countries (Returned [ex_zero]) (Returned (Some ex_rates)) 5
        ex_rng ex_clock ex_render (ex_db, None))))) =
     [(''Zedland'', Some ''ZZZ'', Some 0, None)]"
  by (simp add: run_defs ex_defs)

text \<open>
  C2, amended. For a valid record whose currency code is in the rate table with the rate
  0, the row written keeps the currency code, has a null estimated value, as it has when
  the code is absent from the table, and has the exchange rate 0 of the table (not
  null); no random number is drawn. No iteration of the loop, on any input, raises
  \<^verbatim>\<open>ZeroDivisionError\<close>.
\<close>

theorem zero_rate_keeps_rate_and_nulls_value:
  assumes "validation_errors c = []"
    and "first_currency_code (raw_currencies c) = Some cc" and "cc \<noteq> []"
    and "rates cc = Some 0"
  shows "(\<exists>s'. process_country rates t c (s, g) = Inr (s', g) \<and>
           currency_code (written_row (str_of (raw_name c)) s s') = Some cc \<and>
           exchange_rate (written_row (str_of (raw_name c)) s s') = Some 0 \<and>
           estimated_gdp (written_row (str_of (raw_name c)) s s') = None) \<and>
         fst (estimate (rates(cc := None)) (int_of (raw_population c)) (Some cc) g) =
           Inr (Some cc, None, None) \<and>
         process_country R' t' c' st' \<noteq> Inl (Exc ZeroDivisionError)"
proof -
  have e: "estimate rates (int_of (raw_population c)) (first_currency_code (raw_currencies c)) g =
             (Inr (Some cc, Some 0, None), g)"
    using assms by (simp add: estimate_def calculate_gdp_def)
  have p: "process_country rates t c (s, g) =
             Inr (reconcile t (candidate t c (Some cc) (Some 0) None) s, g)"
    by (rule process_country_estimate [OF assms(1) e])
  have a: "fst (estimate (rates(cc := None)) (int_of (raw_population c)) (Some cc) g) =
             Inr (Some cc, None, None)"
    using assms(3) by (simp add: estimate_def)
  from p a written_row_candidate [of c s t "Some cc" "Some 0" None]
    process_country_no_zero_division [of R' t' c' st']
  show ?thesis by simp
qed

theorem zero_rate_keeps_rate_and_nulls_value_witness:
  "validation_errors ex_zero = [] \<and>
   first_currency_code (raw_currencies ex_zero) = Some ''ZZZ'' \<and>
   ex_rates ''ZZZ'' = Some 0 \<and>
   (\<exists>s'. process_country ex_rates 5 ex_zero (\<lparr>persistent = [], pending = []\<rparr>, ex_rng) = Inr (s', ex_rng) \<and>
         currency_code (written_row ''Zedland'' \<lparr>persistent = [], pending = []\<rparr> s') = Some ''ZZZ'' \<and>
         exchange_rate (written_row ''Zedland'' \<lparr>persistent = [], pending = []\<rparr> s') = Some 0 \<and>
         estimated_gdp (written_row ''Zedland'' \<lparr>persistent = [], pending = []\<rparr> s') = None)"
proof -
  have v: "validation_errors ex_zero = []"
    by (simp add: validation_errors_def name_errors_def population_errors_def ex_zero_def)
  have c: "first_currency_code (raw_currencies ex_zero) = Some ''ZZZ''"
    by (simp add: first_currency_code_def ex_zero_def)
  have r: "ex_rates ''ZZZ'' = Some 0" by (simp add: ex_rates_def)
  have n: "str_of (raw_name ex_zero) = ''Zedland''" by (simp add: str_of_def ex_zero_def)
  show ?thesis
    using zero_rate_keeps_rate_and_nulls_value
      [of ex_zero "''ZZZ''" ex_rates 5 "\<lparr>persistent = [], pending = []\<rparr>" ex_rng]
    by (simp add: v c r n)
qed

subsection \<open>The estimate\<close>




subsection \<open>Rows after a refresh\<close>

lemma estimate_data_model:
  assumes "fst (estimate R p c g) = Inr (cc, rate, gdp)"
  shows "(gdp \<noteq> None \<longrightarrow> (rate \<noteq> None \<and> rate \<noteq> Some 0) \<or> cc = None) \<and>
         (cc = None \<longrightarrow> gdp = Some 0 \<and> rate = None)"
proof (cases c)
  case None
  with assms show ?thesis by (auto simp: estimate_def)
next
  case (Some code')
  show ?thesis
  proof (cases "R code'")
    case None
    with assms Some show ?thesis by (auto simp: estimate_def split: if_splits)
  next
    case rate': (Some r)
    have "estimate R p c g =
            (if code' = [] then (Inr (None, None, Some 0), g)
             else if r = 0 then (Inr (Some code', Some 0, None), g)
             else if in_float_range p
               then (Inr (Some code', Some r, Some (real_of_int p * g 0 / r)), \<lambda>n. g (Suc n))
               else (Inl OverflowError, \<lambda>n. g (Suc n)))"
      using Some rate'
      by (simp add: estimate_def calculate_gdp_def random_uniform_def float_of_int_def
          truediv_def)
    with assms show ?thesis by (auto split: if_splits)
  qed
qed

lemma candidate_data_model:
  assumes "fst (estimate R p c g) = Inr (cc, rate, gdp)"
  shows "data_model_invariant (candidate t cd cc rate gdp)"
  using estimate_data_model [OF assms] by (simp add: data_model_invariant_def candidate_def)

lemma refreshed_update:
  assumes "data_model_invariant n"
  shows "refreshed t (old\<lparr>capital := capital n, region := region n, population := population n,
            currency_code := currency_code n, exchange_rate := exchange_rate n,
            estimated_gdp := estimated_gdp n, flag_url := flag_url n,
            last_refreshed_at := t\<rparr>)"
    and "refreshed t (n\<lparr>last_refreshed_at := t\<rparr>)"
  using assms by (simp_all add: refreshed_def data_model_invariant_def)

lemma reconcile_invariant:
  assumes "loop_invariant t rows0 s" and "data_model_invariant n"
  shows "loop_invariant t rows0 (reconcile t n s)"
proof (cases "first_index (\<lambda>c. ilike (name c) (name n)) (persistent s)")
  case None
  then show ?thesis
    using assms by (simp add: reconcile_def loop_invariant_def refreshed_update)
next
  case (Some i)
  then have i: "i < length (persistent s)" by (simp add: first_index_Some)
  show ?thesis
    unfolding loop_invariant_def
  proof (intro conjI allI impI)
    show "length (persistent (reconcile t n s)) = length rows0"
      using assms(1) Some by (simp add: reconcile_def loop_invariant_def)
    show "list_all (refreshed t) (pending (reconcile t n s))"
      using assms(1) Some by (simp add: reconcile_def loop_invariant_def)
    fix j assume j: "j < length rows0"
    show "persistent (reconcile t n s) ! j = rows0 ! j \<or>
          refreshed t (persistent (reconcile t n s) ! j)"
    proof (cases "j = i")
      case True
      then show ?thesis
        using Some i assms(2) by (simp add: reconcile_def refreshed_update)
    next
      case False
      then show ?thesis
        using Some assms(1) j by (simp add: reconcile_def loop_invariant_def)
    qed
  qed
qed

lemma process_country_cases:
  assumes "process_country R t c (s, g) = Inr (s', g')"
  obtains cc rate gdp where "validation_errors c = []"
    and "estimate R (int_of (raw_population c)) (first_currency_code (raw_currencies c)) g =
           (Inr (cc, rate, gdp), g')"
    and "s' = reconcile t (candidate t c cc rate gdp) s"
  using assms
  by (auto simp: process_country_def candidate_def Let_def split: if_splits prod.splits sum.splits)

lemma process_country_invariant:
  assumes "process_country R t c (s, g) = Inr (s', g')" and "loop_invariant t rows0 s"
  shows "loop_invariant t rows0 s'"
proof -
  from assms(1) obtain cc rate gdp where
    e: "estimate R (int_of (raw_population c)) (first_currency_code (raw_currencies c)) g =
           (Inr (cc, rate, gdp), g')"
    and s': "s' = reconcile t (candidate t c cc rate gdp) s"
    by (rule process_country_cases)
  from e have "fst (estimate R (int_of (raw_population c))
      (first_currency_code (raw_currencies c)) g) = Inr (cc, rate, gdp)"
    by simp
  then have "data_model_invariant (candidate t c cc rate gdp)"
    by (rule candidate_data_model)
  with assms(2) show ?thesis unfolding s' by (rule reconcile_invariant)
qed

lemma process_all_invariant:
  assumes "process_all R t body (s, g) = Inr (s', g')" and "loop_invariant t rows0 s"
  shows "loop_invariant t rows0 s'"
  using assms
proof (induction body arbitrary: s g)
  case Nil
  then show ?case by simp
next
  case (Cons c cs)
  from Cons.prems(1) obtain s1 g1 where
    1: "process_country R t c (s, g) = Inr (s1, g1)"
    and 2: "process_all R t cs (s1, g1) = Inr (s', g')"
    by (auto split: sum.splits)
  from 1 Cons.prems(2) have "loop_invariant t rows0 s1" by (rule process_country_invariant)
  with 2 show ?case by (rule Cons.IH)
qed

lemma flush_pending_rows:
  assumes "flush_pending cs d = Inr d'"
  shows "\<exists>ks. length ks = length cs \<and>
           countries d' = countries d @ map (\<lambda>(c, k). c\<lparr>country_id := Some k\<rparr>) (zip cs ks)"
  using assms
proof (induction cs arbitrary: d)
  case Nil
  then show ?case by simp
next
  case (Cons c cs)
  let ?d1 = "\<lparr>countries = countries d @ [c\<lparr>country_id := Some (next_id d)\<rparr>], next_id = Suc (next_id d)\<rparr>"
  from Cons.prems have "flush_pending cs ?d1 = Inr d'" by (simp split: if_splits)
  from Cons.IH [OF this] obtain ks where
    "length ks = length cs"
    "countries d' = countries ?d1 @ map (\<lambda>(c, k). c\<lparr>country_id := Some k\<rparr>) (zip cs ks)"
    by blast
  then have "length (next_id d # ks) = length (c # cs) \<and>
     countries d' = countries d @ map (\<lambda>(c, k). c\<lparr>country_id := Some k\<rparr>) (zip (c # cs) (next_id d # ks))"
    by simp
  then show ?case by blast
qed

lemma flush_row_name: "name (flush_row clock old new) = name new"
  by (simp add: flush_row_def)

lemma flush_rows_length: "length (flush_rows clock i olds news) = length news"
proof (induction olds arbitrary: i news)
  case Nil
  show ?case by simp
next
  case (Cons old olds)
  then show ?case by (cases news) simp_all
qed

lemma flush_rows_names: "map name (flush_rows clock i olds news) = map name news"
proof (induction olds arbitrary: i news)
  case Nil
  show ?case by simp
next
  case (Cons old olds)
  then show ?case by (cases news) (simp_all add: flush_row_name)
qed

lemma flush_rows_nth:
  assumes "length olds = length news" and "j < length news"
  shows "flush_rows clock i olds news ! j = flush_row (clock (i + j)) (olds ! j) (news ! j)"
  using assms
proof (induction olds arbitrary: i j news)
  case Nil
  then show ?case by simp
next
  case (Cons old olds)
  then obtain new news' where news: "news = new # news'" by (cases news) auto
  show ?case
  proof (cases j)
    case 0
    then show ?thesis by (simp add: news)
  next
    case (Suc j')
    with Cons.prems news have "length olds = length news'" "j' < length news'" by simp_all
    from Cons.IH [OF this, of "Suc i"] show ?thesis by (simp add: news Suc)
  qed
qed

lemma refresh_success_cases:
  assumes "refresh_countries co ro t g clock render (d, file) = (Inr resp, d', file')"
  obtains body data s g' where "co = Returned body" and "ro = Returned data"
    and "process_all (case data of None \<Rightarrow> Map.empty | Some rates \<Rightarrow> rates) t body
           (\<lparr>persistent = countries d, pending = []\<rparr>, g) = Inr (s, g')"
    and "commit s clock d = Inr d'"
    and "resp = \<lparr>resp_message = ''Countries refreshed successfully'',
                 resp_total_countries = length (countries d'), resp_last_refreshed_at = t\<rparr>"
    and "file' = generate_summary_image render (countries d') file"
proof (cases co)
  case (Raised e)
  with assms show ?thesis
    by (cases e) (simp_all add: refresh_countries_def fetch_countries_def)
next
  case co: (Returned body)
  show ?thesis
  proof (cases ro)
    case (Raised e)
    with assms co show ?thesis
      by (cases e) (simp_all add: refresh_countries_def fetch_countries_def fetch_exchange_rates_def)
  next
    case ro: (Returned data)
    from assms co ro obtain s g' where
      "process_all (case data of None \<Rightarrow> Map.empty | Some rates \<Rightarrow> rates) t body
           (\<lparr>persistent = countries d, pending = []\<rparr>, g) = Inr (s, g')"
      "commit s clock d = Inr d'"
      "resp = \<lparr>resp_message = ''Countries refreshed successfully'',
                 resp_total_countries = length (countries d'), resp_last_refreshed_at = t\<rparr>"
      "file' = generate_summary_image render (countries d') file"
      by (auto simp: refresh_countries_def fetch_countries_def fetch_exchange_rates_def Let_def
            split: sum.splits raised.splits prod.splits)
    with co ro show ?thesis by (intro that)
  qed
qed

text \<open>
  After a refresh that succeeds, a row of the table is the row that was there before, or
  it satisfies the invariant of the data model and carries the time of the batch, unless
  the row stored before carried that time already.
\<close>

lemma refresh_rows:
  assumes "refresh_countries co ro t g clock render (d, file) = (Inr resp, d', file')"
  shows "length (countries d) \<le> length (countries d') \<and>
         (\<forall>j<length (countries d').
            (j < length (countries d) \<and> countries d' ! j = countries d ! j) \<or>
            (data_model_invariant (countries d' ! j) \<and>
             (last_refreshed_at (countries d' ! j) = t \<or>
              (j < length (countries d) \<and> last_refreshed_at (countries d ! j) = t))))"
proof -
  from assms obtain body data s g' where
    p: "process_all (case data of None \<Rightarrow> Map.empty | Some rates \<Rightarrow> rates) t body
           (\<lparr>persistent = countries d, pending = []\<rparr>, g) = Inr (s, g')"
    and c: "commit s clock d = Inr d'"
    by (rule refresh_success_cases)
  have "loop_invariant t (countries d) \<lparr>persistent = countries d, pending = []\<rparr>"
    by (simp add: loop_invariant_def)
  with p have inv: "loop_invariant t (countries d) s" by (rule process_all_invariant)
  have len: "length (persistent s) = length (countries d)"
    using inv by (simp add: loop_invariant_def)
  let ?rows = "flush_rows clock 0 (countries d) (persistent s)"
  from c obtain ks where ks: "length ks = length (pending s)"
    and rows: "countries d' = ?rows @ map (\<lambda>(c, k). c\<lparr>country_id := Some k\<rparr>) (zip (pending s) ks)"
    using flush_pending_rows [of "pending s" "d\<lparr>countries := ?rows\<rparr>" d']
    by (auto simp: commit_def)
  have lrows: "length ?rows = length (countries d)" by (simp add: flush_rows_length len)
  show ?thesis
  proof (intro conjI allI impI)
    show "length (countries d) \<le> length (countries d')" by (simp add: rows lrows)
    fix j assume j: "j < length (countries d')"
    show "(j < length (countries d) \<and> countries d' ! j = countries d ! j) \<or>
            (data_model_invariant (countries d' ! j) \<and>
             (last_refreshed_at (countries d' ! j) = t \<or>
              (j < length (countries d) \<and> last_refreshed_at (countries d ! j) = t)))"
    proof (cases "j < length (countries d)")
      case True
      let ?old = "countries d ! j" and ?new = "persistent s ! j"
      have row: "countries d' ! j = flush_row (clock j) ?old ?new"
        using True flush_rows_nth [of "countries d" "persistent s" j clock 0]
        by (simp add: rows nth_append lrows len)
      from inv True have "?new = ?old \<or> refreshed t ?new"
        by (simp add: loop_invariant_def)
      then show ?thesis
      proof
        assume "?new = ?old"
        then show ?thesis using True by (simp add: row flush_row_def)
      next
        assume "refreshed t ?new"
        then show ?thesis
          using True by (auto simp: row flush_row_def refreshed_def data_model_invariant_def)
      qed
    next
      case False
      define k where "k = j - length (countries d)"
      have k: "k < length (pending s)" using j False ks by (simp add: k_def rows lrows)
      have "countries d' ! j = (pending s ! k)\<lparr>country_id := Some (ks ! k)\<rparr>"
        using False k ks by (simp add: rows nth_append lrows k_def)
      moreover have "refreshed t (pending s ! k)"
        using inv k by (simp add: loop_invariant_def list_all_length)
      ultimately show ?thesis by (simp add: refreshed_def data_model_invariant_def)
    qed
  qed
qed

subsection \<open>Two runs on the example inputs\<close>

lemma ex_run_update_insert:
  "refresh_countries (Returned [ex_chad_upper, ex_zero]) (Returned (Some ex_rates)) 5 ex_rng
       ex_clock ex_render_fails (ex_db_chad, None) =
     (Inr \<lparr>resp_message = ''Countries refreshed successfully'', resp_total_countries = 2,
           resp_last_refreshed_at = 5\<rparr>,
      \<lparr>countries =
         [\<lparr>country_id = Some 1, name = ''Chad'', capital = None, region = None,
           population = 10, currency_code = Some ''XAF'', exchange_rate = Some 2,
           estimated_gdp = Some 7500, flag_url = None, last_refreshed_at = 5\<rparr>,
          \<lparr>country_id = Some 2, name = ''Zedland'', capital = None, region = None,
           population = 1000, currency_code = Some ''ZZZ'', exchange_rate = Some 0,
           estimated_gdp = None, flag_url = None, last_refreshed_at = 5\<rparr>],
       next_id = 3\<rparr>,
      None)"
  by (simp add: run_defs ex_defs)

lemma ex_step_update:
  "process_country ex_rates 5 ex_chad_upper (\<lparr>persistent = [ex_row_chad], pending = []\<rparr>, ex_rng) =
     Inr (\<lparr>persistent =
         [\<lparr>country_id = Some 1, name = ''Chad'', capital = None, region = None,
           population = 10, currency_code = Some ''XAF'', exchange_rate = Some 2,
           estimated_gdp = Some 7500, flag_url = None, last_refreshed_at = 5\<rparr>],
         pending = []\<rparr>, \<lambda>n. ex_rng (Suc n))"
  by (simp add: run_defs ex_defs)


subsection \<open>The invariant of the data model\<close>

text \<open>
  C8. Every row the pipeline writes satisfies the invariant of the data model: its
  estimated value is present only when its exchange rate is present and not 0 or it has
  no currency code, and a row with no currency code has the estimated value 0 and no
  exchange rate. This holds of the row written by any iteration of the loop, and after a
  refresh that succeeds every row of the table is the row that was there before, at the
  same position, or satisfies the invariant.
\<close>

theorem written_rows_satisfy_data_model:
  "(process_country R t c (s, g) = Inr (s', g') \<longrightarrow>
      data_model_invariant (written_row (str_of (raw_name c)) s s')) \<and>
   (refresh_countries co ro utcnow g0 clock render (d, file) = (Inr resp, d', file') \<longrightarrow>
      (\<forall>j<length (countries d').
         (j < length (countries d) \<and> countries d' ! j = countries d ! j) \<or>
         data_model_invariant (countries d' ! j)))"
proof (intro conjI impI)
  assume "process_country R t c (s, g) = Inr (s', g')"
  then obtain cc rate gdp where
    e: "estimate R (int_of (raw_population c)) (first_currency_code (raw_currencies c)) g =
           (Inr (cc, rate, gdp), g')"
    and s': "s' = reconcile t (candidate t c cc rate gdp) s"
    by (rule process_country_cases)
  from e have "fst (estimate R (int_of (raw_population c))
      (first_currency_code (raw_currencies c)) g) = Inr (cc, rate, gdp)"
    by simp
  then have "(gdp \<noteq> None \<longrightarrow> (rate \<noteq> None \<and> rate \<noteq> Some 0) \<or> cc = None) \<and>
         (cc = None \<longrightarrow> gdp = Some 0 \<and> rate = None)"
    by (rule estimate_data_model)
  moreover note w = written_row_candidate [of c s t cc rate gdp]
  ultimately show "data_model_invariant (written_row (str_of (raw_name c)) s s')"
    unfolding data_model_invariant_def s'
    by (simp only: w [THEN conjunct1] w [THEN conjunct2, THEN conjunct1]
        w [THEN conjunct2, THEN conjunct2])
next
  assume "refresh_countries co ro utcnow g0 clock render (d, file) = (Inr resp, d', file')"
  from refresh_rows [OF this]
  show "\<forall>j<length (countries d').
         (j < length (countries d) \<and> countries d' ! j = countries d ! j) \<or>
         data_model_invariant (countries d' ! j)"
    by blast
qed

theorem written_rows_satisfy_data_model_witness:
  "process_country ex_rates 5 ex_chad_upper (\<lparr>persistent = [ex_row_chad], pending = []\<rparr>, ex_rng) =
     Inr (\<lparr>persistent =
         [\<lparr>country_id = Some 1, name = ''Chad'', capital = None, region = None,
           population = 10, currency_code = Some ''XAF'', exchange_rate = Some 2,
           estimated_gdp = Some 7500, flag_url = None, last_refreshed_at = 5\<rparr>],
         pending = []\<rparr>, \<lambda>n. ex_rng (Suc n)) \<and>
   data_model_invariant
     (written_row ''CHAD'' \<lparr>persistent = [ex_row_chad], pending = []\<rparr>
        \<lparr>persistent =
           [\<lparr>country_id = Some 1, name = ''Chad'', capital = None, region = None,
             population = 10, currency_code = Some ''XAF'', exchange_rate = Some 2,
             estimated_gdp = Some 7500, flag_url = None, last_refreshed_at = 5\<rparr>],
         pending = []\<rparr>) \<and>
   fst (refresh_countries (Returned [ex_chad_upper, ex_zero]) (Returned (Some ex_rates)) 5 ex_rng
       ex_clock ex_render_fails (ex_db_chad, None)) =
     Inr \<lparr>resp_message = ''Countries refreshed successfully'', resp_total_countries = 2,
           resp_last_refreshed_at = 5\<rparr> \<and>
   data_model_invariant
     \<lparr>country_id = Some 2, name = ''Zedland'', capital = None, region = None,
      population = 1000, currency_code = Some ''ZZZ'', exchange_rate = Some 0,
      estimated_gdp = None, flag_url = None, last_refreshed_at = 5\<rparr>"
proof -
  have n: "str_of (raw_name ex_chad_upper) = ''CHAD''" by (simp add: str_of_def ex_defs)
  note inst = written_rows_satisfy_data_model
    [of ex_rates 5 ex_chad_upper "\<lparr>persistent = [ex_row_chad], pending = []\<rparr>" ex_rng _ _
        "Returned [ex_chad_upper, ex_zero]" "Returned (Some ex_rates)" 5 ex_rng ex_clock
        ex_render_fails ex_db_chad None]
  have l: "length (countries ex_db_chad) = 1" by (simp add: ex_db_chad_def)
  show ?thesis
    using inst [THEN conjunct1, rule_format, OF ex_step_update]
      inst [THEN conjunct2, rule_format, OF ex_run_update_insert, of 1]
    by (simp add: n l ex_step_update ex_run_update_insert)
qed

subsection \<open>Full replace and the timestamp of the batch\<close>




subsection \<open>Failure isolation of the summary image\<close>

text \<open>
  C9. Whatever the drawing and saving of the image do, raising included, the refresh
  returns the same response or error and leaves the same database: no exception leaves
  \<^verbatim>\<open>generate_summary_image\<close>, which returns the file as the renderer left it, and the
  committed batch stays committed.
\<close>

theorem artifact_failure_is_isolated:
  "fst (refresh_countries co ro t g clock render (d, file)) =
     fst (refresh_countries co ro t g clock render' (d, file)) \<and>
   fst (snd (refresh_countries co ro t g clock render (d, file))) =
     fst (snd (refresh_countries co ro t g clock render' (d, file))) \<and>
   generate_summary_image render rows file = snd (render (summary_of rows) file)"
  by (auto simp: refresh_countries_def generate_summary_image_def Let_def
      split: sum.splits raised.splits prod.splits option.splits)

subsection \<open>What the lookup guarantees\<close>

text \<open>
  A pattern matches itself, so a candidate whose name equals a stored name up to letter
  case always finds a row and is never inserted. For a name without \<^verbatim>\<open>%\<close> and
  \<^verbatim>\<open>_\<close> the rows found are exactly those equal to it up to letter case.
\<close>

lemma like_percent_suffix: "like ps t \<Longrightarrow> like (CHR ''%'' # ps) (s @ t)"
proof (induction s)
  case Nil
  then show ?case by (cases t) simp_all
next
  case (Cons c s)
  then show ?case by simp
qed

lemma like_refl: "like p p"
proof (induction p)
  case Nil
  show ?case by simp
next
  case (Cons c p)
  show ?case
  proof (cases "c = CHR ''%''")
    case True
    from like_percent_suffix [OF Cons, of "[c]"] True show ?thesis by simp
  next
    case False
    with Cons show ?thesis by simp
  qed
qed

lemma ilike_equal_up_to_case: "lower a = lower b \<Longrightarrow> ilike a b"
  by (simp add: ilike_def like_refl)

lemma first_index_None: "first_index P xs = None \<Longrightarrow> x \<in> set xs \<Longrightarrow> \<not> P x"
  by (induction xs) (auto split: if_splits)

lemma first_index_found:
  assumes "x \<in> set xs" and "P x"
  obtains i where "first_index P xs = Some i"
  using assms first_index_None [of P xs x] by (cases "first_index P xs") auto

lemma reconcile_names: "map name (persistent (reconcile t n s)) = map name (persistent s)"
proof (cases "first_index (\<lambda>c. ilike (name c) (name n)) (persistent s)")
  case None
  then show ?thesis by (simp add: reconcile_def)
next
  case (Some i)
  then show ?thesis
    by (simp add: reconcile_def map_update list_update_same_conv first_index_Some)
qed

lemma like_no_wildcard:
  assumes "CHR ''%'' \<notin> set p" and "CHR ''_'' \<notin> set p"
  shows "like p s \<longleftrightarrow> p = s"
  using assms
proof (induction p arbitrary: s)
  case Nil
  show ?case by (cases s) simp_all
next
  case (Cons c p)
  then show ?case by (cases s) auto
qed

lemma lower_char_wildcard:
  "lower_char c = CHR ''%'' \<longleftrightarrow> c = CHR ''%''"
  "lower_char c = CHR ''_'' \<longleftrightarrow> c = CHR ''_''"
  "CHR ''%'' = lower_char c \<longleftrightarrow> c = CHR ''%''"
  "CHR ''_'' = lower_char c \<longleftrightarrow> c = CHR ''_''"
  by (auto simp: lower_char_def split: if_splits)

lemma lower_wildcard:
  "CHR ''%'' \<in> set (lower n) \<longleftrightarrow> CHR ''%'' \<in> set n"
  "CHR ''_'' \<in> set (lower n) \<longleftrightarrow> CHR ''_'' \<in> set n"
  unfolding lower_def by (induction n) (auto simp: lower_char_wildcard)

text \<open>For a name without \<^verbatim>\<open>%\<close> and \<^verbatim>\<open>_\<close> the lookup is equality up to letter case.\<close>

lemma ilike_no_wildcard:
  assumes "CHR ''%'' \<notin> set n" and "CHR ''_'' \<notin> set n"
  shows "ilike column n \<longleftrightarrow> lower column = lower n"
  using assms like_no_wildcard [of "lower n" "lower column"]
  by (auto simp: ilike_def lower_wildcard)

text \<open>A candidate whose name equals a stored name up to letter case updates a row in place.\<close>

lemma reconcile_existing_name_updates_in_place:
  assumes "r \<in> set (persistent s)" and "lower (name r) = lower (name n)"
  shows "pending (reconcile t n s) = pending s \<and>
         length (persistent (reconcile t n s)) = length (persistent s) \<and>
         map name (persistent (reconcile t n s)) = map name (persistent s)"
proof -
  from assms(2) have "ilike (name r) (name n)" by (rule ilike_equal_up_to_case)
  with assms(1) obtain i where
    "first_index (\<lambda>c. ilike (name c) (name n)) (persistent s) = Some i"
    by (rule first_index_found)
  then show ?thesis using reconcile_names [of t n s] by (simp add: reconcile_def)
qed

lemma reconcile_session_names:
  "set (session_names s) \<subseteq> set (session_names (reconcile t n s))"
proof -
  have "set (map name (pending s)) \<subseteq> set (map name (pending (reconcile t n s)))"
    by (auto simp: reconcile_def split: option.splits)
  then show ?thesis
    unfolding session_names_def set_append reconcile_names by blast
qed

lemma reconcile_finds_name:
  "\<exists>m\<in>set (session_names (reconcile t n s)). ilike m (name n)"
proof (cases "first_index (\<lambda>c. ilike (name c) (name n)) (persistent s)")
  case None
  have "ilike (name n) (name n)" by (simp add: ilike_equal_up_to_case)
  with None show ?thesis by (simp add: reconcile_def session_names_def)
next
  case (Some i)
  from first_index_Some [OF Some]
  have "i < length (persistent s)" and "ilike (name (persistent s ! i)) (name n)"
    by simp_all
  then have "name (persistent s ! i) \<in> set (map name (persistent s))"
    by simp
  with \<open>ilike (name (persistent s ! i)) (name n)\<close>
  have "\<exists>m\<in>set (map name (persistent s)). ilike m (name n)" by blast
  then show ?thesis
    unfolding session_names_def set_append reconcile_names by blast
qed

lemma process_all_names:
  assumes "process_all R t body (s, g) = Inr (s', g')"
  shows "map name (persistent s') = map name (persistent s) \<and>
         set (session_names s) \<subseteq> set (session_names s') \<and>
         (\<forall>c\<in>set body. \<exists>m\<in>set (session_names s'). ilike m (str_of (raw_name c)))"
  using assms
proof (induction body arbitrary: s g)
  case Nil
  then show ?case by simp
next
  case (Cons c cs)
  from Cons.prems obtain s1 g1 where
    1: "process_country R t c (s, g) = Inr (s1, g1)"
    and 2: "process_all R t cs (s1, g1) = Inr (s', g')"
    by (auto split: sum.splits)
  from 1 obtain cc rate gdp where s1: "s1 = reconcile t (candidate t c cc rate gdp) s"
    by (rule process_country_cases)
  have n: "name (candidate t c cc rate gdp) = str_of (raw_name c)" by (simp add: candidate_def)
  from Cons.IH [OF 2] have ih1: "map name (persistent s') = map name (persistent s1)"
    and ih2: "set (session_names s1) \<subseteq> set (session_names s')"
    and ih3: "\<forall>c\<in>set cs. \<exists>m\<in>set (session_names s'). ilike m (str_of (raw_name c))"
    by simp_all
  have "\<exists>m\<in>set (session_names s1). ilike m (str_of (raw_name c))"
    using reconcile_finds_name [of t "candidate t c cc rate gdp" s] by (simp only: s1 n)
  with ih2 have a: "\<exists>m\<in>set (session_names s'). ilike m (str_of (raw_name c))" by blast
  have b: "map name (persistent s') = map name (persistent s)"
    using ih1 by (simp add: s1 reconcile_names)
  have "set (session_names s) \<subseteq> set (session_names s1)"
    unfolding s1 by (rule reconcile_session_names)
  with ih2 have c: "set (session_names s) \<subseteq> set (session_names s')" by blast
  from a b c ih3 show ?case by simp
qed

lemma process_all_no_insert:
  assumes "process_all R t body (s, g) = Inr (s', g')"
    and "\<forall>c\<in>set body. \<exists>m\<in>set (map name (persistent s)). ilike m (str_of (raw_name c))"
  shows "pending s' = pending s \<and> length (persistent s') = length (persistent s)"
  using assms
proof (induction body arbitrary: s g)
  case Nil
  then show ?case by simp
next
  case (Cons c cs)
  from Cons.prems(1) obtain s1 g1 where
    1: "process_country R t c (s, g) = Inr (s1, g1)"
    and 2: "process_all R t cs (s1, g1) = Inr (s', g')"
    by (auto split: sum.splits)
  from 1 obtain cc rate gdp where s1: "s1 = reconcile t (candidate t c cc rate gdp) s"
    by (rule process_country_cases)
  have n: "name (candidate t c cc rate gdp) = str_of (raw_name c)" by (simp add: candidate_def)
  have names: "map name (persistent s1) = map name (persistent s)"
    by (simp add: s1 reconcile_names)
  from Cons.prems(2) obtain m where
    "m \<in> set (map name (persistent s))" "ilike m (str_of (raw_name c))" by auto
  then obtain x where "x \<in> set (persistent s)" "ilike (name x) (str_of (raw_name c))"
    by auto
  then obtain i where
    "first_index (\<lambda>r. ilike (name r) (str_of (raw_name c))) (persistent s) = Some i"
    by (rule first_index_found)
  then have step: "pending s1 = pending s" "length (persistent s1) = length (persistent s)"
    by (simp_all add: s1 reconcile_def n)
  from Cons.prems(2)
  have "\<forall>c\<in>set cs. \<exists>m\<in>set (map name (persistent s1)). ilike m (str_of (raw_name c))"
    unfolding names by simp
  from Cons.IH [OF 2 this] step show ?case by simp
qed

lemma flush_pending_names:
  assumes "flush_pending cs d = Inr d'"
  shows "map name (countries d') = map name (countries d) @ map name cs"
  using assms
proof (induction cs arbitrary: d)
  case Nil
  then show ?case by simp
next
  case (Cons c cs)
  let ?d1 = "\<lparr>countries = countries d @ [c\<lparr>country_id := Some (next_id d)\<rparr>], next_id = Suc (next_id d)\<rparr>"
  from Cons.prems have "flush_pending cs ?d1 = Inr d'" by (simp split: if_splits)
  from Cons.IH [OF this] show ?case by simp
qed

text \<open>
  A refresh that follows a successful refresh of the same feed inserts nothing: whatever
  it returns, the table has as many rows as before.
\<close>

lemma rerun_keeps_record_count:
  assumes "refresh_countries (Returned body) ro t g clock render (d, file) = (Inr resp, d1, file1)"
  shows "length (countries (fst (snd
           (refresh_countries (Returned body) ro' t' g' clock' render' (d1, file'))))) =
         length (countries d1)"
proof -
  from assms obtain body0 data s g1 where
    b: "Returned body = Returned body0"
    and p: "process_all (case data of None \<Rightarrow> Map.empty | Some rates \<Rightarrow> rates) t body0
           (\<lparr>persistent = countries d, pending = []\<rparr>, g) = Inr (s, g1)"
    and c: "commit s clock d = Inr d1"
    by (rule refresh_success_cases)
  from b have body0: "body0 = body" by simp
  from c have names: "map name (countries d1) = session_names s"
    using flush_pending_names
      [of "pending s" "d\<lparr>countries := flush_rows clock 0 (countries d) (persistent s)\<rparr>" d1]
    by (simp add: commit_def session_names_def flush_rows_names)
  have found: "\<forall>c\<in>set body. \<exists>m\<in>set (map name (countries d1)). ilike m (str_of (raw_name c))"
    using process_all_names [OF p] unfolding names body0 by blast
  obtain out d2 file2 where
    run: "refresh_countries (Returned body) ro' t' g' clock' render' (d1, file') = (out, d2, file2)"
    by (cases "refresh_countries (Returned body) ro' t' g' clock' render' (d1, file')")
  have "length (countries d2) = length (countries d1)"
  proof (cases out)
    case (Inl e)
    with run show ?thesis using refresh_failure_keeps_db by blast
  next
    case (Inr resp2)
    with run have "refresh_countries (Returned body) ro' t' g' clock' render' (d1, file') =
        (Inr resp2, d2, file2)" by simp
    then obtain body2 data2 s2 g2 where
      b2: "Returned body = Returned body2"
      and p2: "process_all (case data2 of None \<Rightarrow> Map.empty | Some rates \<Rightarrow> rates) t' body2
           (\<lparr>persistent = countries d1, pending = []\<rparr>, g') = Inr (s2, g2)"
      and c2: "commit s2 clock' d1 = Inr d2"
      by (rule refresh_success_cases)
    from b2 have body2: "body2 = body" by simp
    have "pending s2 = [] \<and> length (persistent s2) = length (countries d1)"
      using process_all_no_insert [OF p2] found by (simp add: body2)
    with c2 show ?thesis by (auto simp: commit_def flush_rows_length)
  qed
  with run show ?thesis by simp
qed

subsection \<open>The lookup is a pattern match\<close>

text \<open>
  C10. The lookup by name is a \<^verbatim>\<open>LIKE\<close> match: the query name \<^verbatim>\<open>C%\<close>, which is not
  the name \<open>Chad\<close> in any letter case, finds the row of Chad in
  \<^verbatim>\<open>GET /countries/{name}\<close>, deletes it in \<^verbatim>\<open>DELETE /countries/{name}\<close>, and as the
  name of a candidate makes the reconciliation overwrite it.
\<close>

theorem like_lookup_matches_unequal_name:
  "lower ''C%'' \<noteq> lower (name ex_row_chad) \<and>
   get_country ''C%'' ex_db_chad = Inr ex_row_chad \<and>
   delete_country ''C%'' ex_db_chad =
     (Inr (''Country '' @ [CHR 0x27] @ ''C%'' @ [CHR 0x27] @ '' deleted successfully''),
      \<lparr>countries = [], next_id = 2\<rparr>) \<and>
   process_country ex_rates 5 ex_pattern (\<lparr>persistent = [ex_row_chad], pending = []\<rparr>, ex_rng) =
     Inr (\<lparr>persistent =
         [\<lparr>country_id = Some 1, name = ''Chad'', capital = None, region = Some ''Nowhere'',
           population = 7, currency_code = None, exchange_rate = None,
           estimated_gdp = Some 0, flag_url = None, last_refreshed_at = 5\<rparr>],
         pending = []\<rparr>, ex_rng)"
  by (simp add: run_defs ex_defs get_country_def delete_country_def)

subsection \<open>A refresh repeated on a feed with a pattern character\<close>

text \<open>
  C3 fails on a feed with the two countries \<open>Chad\<close> and \<^verbatim>\<open>C%\<close>. The first refresh, on
  an empty table, inserts both. The second refresh, with the same feed, finds for the
  candidate \<^verbatim>\<open>C%\<close> the row of Chad first: it overwrites that row with the data of
  \<^verbatim>\<open>C%\<close> and leaves the stored row named \<^verbatim>\<open>C%\<close> as the first refresh wrote it.
  The number of rows does not change.
\<close>

theorem rerun_updates_another_row:
  "refresh_countries (Returned ex_feed) (Returned (Some ex_rates)) 5 ex_rng ex_clock ex_render_fails
       (ex_db, None) =
     (Inr \<lparr>resp_message = ''Countries refreshed successfully'', resp_total_countries = 2,
           resp_last_refreshed_at = 5\<rparr>,
      \<lparr>countries =
         [\<lparr>country_id = Some 1, name = ''Chad'', capital = Some ''Ndjamena'',
           region = Some ''Africa'', population = 10, currency_code = Some ''XAF'',
           exchange_rate = Some 2, estimated_gdp = Some 7500,
           flag_url = Some ''https://flagcdn.com/td.svg'', last_refreshed_at = 5\<rparr>,
          \<lparr>country_id = Some 2, name = ''C%'', capital = None, region = Some ''Nowhere'',
           population = 7, currency_code = None, exchange_rate = None,
           estimated_gdp = Some 0, flag_url = None, last_refreshed_at = 5\<rparr>],
       next_id = 3\<rparr>,
      None) \<and>
   refresh_countries (Returned ex_feed) (Returned (Some ex_rates)) 9 ex_rng ex_clock ex_render_fails
       (\<lparr>countries =
         [\<lparr>country_id = Some 1, name = ''Chad'', capital = Some ''Ndjamena'',
           region = Some ''Africa'', population = 10, currency_code = Some ''XAF'',
           exchange_rate = Some 2, estimated_gdp = Some 7500,
           flag_url = Some ''https://flagcdn.com/td.svg'', last_refreshed_at = 5\<rparr>,
          \<lparr>country_id = Some 2, name = ''C%'', capital = None, region = Some ''Nowhere'',
           population = 7, currency_code = None, exchange_rate = None,
           estimated_gdp = Some 0, flag_url = None, last_refreshed_at = 5\<rparr>],
       next_id = 3\<rparr>, None) =
     (Inr \<lparr>resp_message = ''Countries refreshed successfully'', resp_total_countries = 2,
           resp_last_refreshed_at = 9\<rparr>,
      \<lparr>countries =
         [\<lparr>country_id = Some 1, name = ''Chad'', capital = None, region = Some ''Nowhere'',
           population = 7, currency_code = None, exchange_rate = None,
           estimated_gdp = Some 0, flag_url = None, last_refreshed_at = 9\<rparr>,
          \<lparr>country_id = Some 2, name = ''C%'', capital = None, region = Some ''Nowhere'',
           population = 7, currency_code = None, exchange_rate = None,
           estimated_gdp = Some 0, flag_url = None, last_refreshed_at = 5\<rparr>],
       next_id = 3\<rparr>,
      None)"
  by (simp add: run_defs ex_defs)

end
